theory Spec2Isabelle
  imports Complex_Main "HOL-Library.Word" "HOL-Library.Signed_Division" "HOL-Library.Monad_Syntax"
begin

section \<open>Workout metrics calculator: a shallow embedding of both program versions\<close>

text \<open>
  The repository holds two near-duplicate Go programs: \<^verbatim>\<open>src/main.go\<close> and
  \<^verbatim>\<open>src/unnamed/part_000\<close>. Both are embedded. The definitions taken from
  \<^verbatim>\<open>src/main.go\<close> keep the source's names; those taken from
  \<^verbatim>\<open>src/unnamed/part_000\<close> carry the suffix \<open>_v2\<close>. A method \<open>m\<close> with receiver
  type \<open>T\<close> is the function \<open>T_m\<close>. The fields of \<open>InfoMessage\<close> are prefixed with \<open>Msg\<close>,
  since \<open>Training\<close> has fields of the same names and \<open>Calories\<close> is also a method.

  Conventions of the model:
  \<^item> Go's \<open>int\<close> (on a 64-bit platform) and \<open>time.Duration\<close> (an \<open>int64\<close> count of
    nanoseconds) are \<open>64 word\<close>, read as signed numbers by \<open>sint\<close>; \<open>*\<close> and \<open>+\<close> wrap.
  \<^item> \<open>float64\<close> is idealised as \<open>real\<close>: rounding error, overflow, NaN and signed zero
    are outside the model. A division whose divisor is computed at run time goes through
    \<open>fdiv\<close>, which returns \<open>None\<close> for a zero divisor (where Go would produce an infinity or
    NaN, which no real number stands for); a division by a non-zero literal constant is
    written with \<open>/\<close>. Hence every function that divides by a computed value returns
    \<open>real option\<close>, and that the guards of the code cover every such division is a
    theorem (\<open>\<dots> = Some \<dots>\<close>), not an assumption.
  \<^item> A struct is a record; an embedded struct is a field holding the embedded record, and a
    promoted field or method is reached through it, as Go resolves it.
  \<^item> A value of the interface \<open>CaloriesCalculator\<close> is a datatype tagged with its dynamic
    type; a method call on the interface is a case distinction on the tag.
\<close>

subsection \<open>Go library: integers, floats, durations, formatting\<close>

type_synonym go_int = "64 word"
type_synonym Duration = "64 word"
type_synonym float64 = real

text \<open>The conversion \<^verbatim>\<open>float64(n)\<close> of a signed integer.\<close>

definition float64_of_int :: "go_int \<Rightarrow> float64" where
  "float64_of_int n = real_of_int (sint n)"

text \<open>Division of floats by a divisor computed at run time.\<close>

definition fdiv :: "float64 \<Rightarrow> float64 \<Rightarrow> float64 option" where
  "fdiv x y = (if y = 0 then None else Some (x / y))"

text \<open>\<^verbatim>\<open>math.Pow(x, 2)\<close>.\<close>

definition math_Pow2 :: "float64 \<Rightarrow> float64" where
  "math_Pow2 x = x * x"

text \<open>The constants \<^verbatim>\<open>time.Minute\<close> and \<^verbatim>\<open>time.Hour\<close>, in nanoseconds.\<close>

definition Minute :: Duration where
  "Minute = 60000000000"

definition Hour :: Duration where
  "Hour = 3600000000000"

text \<open>
  \<^verbatim>\<open>Duration.Hours\<close> and \<^verbatim>\<open>Duration.Minutes\<close> of package \<^verbatim>\<open>time\<close>: the whole
  hours (minutes) by truncating integer division, plus the remaining nanoseconds as a
  fraction. Go's \<open>/\<close> and \<open>%\<close> on integers truncate towards zero: \<open>sdiv\<close> and \<open>smod\<close>.
\<close>

definition Hours :: "Duration \<Rightarrow> float64" where
  "Hours d =
     (let hour = sint d sdiv sint Hour;
          nsec = sint d smod sint Hour
      in real_of_int hour + real_of_int nsec / (60 * 60 * 1000000000))"

definition Minutes :: "Duration \<Rightarrow> float64" where
  "Minutes d =
     (let min = sint d sdiv sint Minute;
          nsec = sint d smod sint Minute
      in real_of_int min + real_of_int nsec / (60 * 1000000000))"

text \<open>
  The verb \<^verbatim>\<open>%.Nf\<close> of package \<^verbatim>\<open>fmt\<close> on the idealised floats: an optional minus
  sign, the integer part in decimal, and \<open>N\<close> decimals after a point (no point when
  \<open>N = 0\<close>), the value rounded to the nearest multiple of \<open>10\<^sup>-\<^sup>N\<close>, a tie going to the
  even neighbour.
\<close>

fun digits :: "nat \<Rightarrow> string" where
  "digits n =
     (if n < 10 then [''0123456789'' ! n]
      else digits (n div 10) @ [''0123456789'' ! (n mod 10)])"

declare digits.simps [simp del]

definition round_half_even :: "real \<Rightarrow> int" where
  "round_half_even x =
     (let f = \<lfloor>x\<rfloor>; r = x - real_of_int f
      in if r < 1 / 2 then f
         else if 1 / 2 < r then f + 1
         else if even f then f else f + 1)"

definition pad_zeros :: "nat \<Rightarrow> string \<Rightarrow> string" where
  "pad_zeros p ds = replicate (p - length ds) (CHR ''0'') @ ds"

definition fmt_f :: "nat \<Rightarrow> float64 \<Rightarrow> string" where
  "fmt_f p x =
     (let m = nat (round_half_even (\<bar>x\<bar> * 10 ^ p));
          ip = m div 10 ^ p;
          fp = m mod 10 ^ p
      in (if x < 0 then ''-'' else []) @ digits ip @
         (if p = 0 then [] else ''.'' @ pad_zeros p (digits fp)))"

text \<open>
  The format string of \<^verbatim>\<open>InfoMessage.String\<close>, the same bytes in both versions, cut at
  its five verbs (\<^verbatim>\<open>%s\<close>, \<^verbatim>\<open>%.0f\<close> and three times \<^verbatim>\<open>%.2f\<close>). The Cyrillic text is
  UTF-8, two bytes a letter.
\<close>

definition fmt_piece0 :: string where
  "fmt_piece0 =
    [CHR 0xD0, CHR 0xA2, CHR 0xD0, CHR 0xB8, CHR 0xD0, CHR 0xBF, CHR '' '', CHR 0xD1,
     CHR 0x82, CHR 0xD1, CHR 0x80, CHR 0xD0, CHR 0xB5, CHR 0xD0, CHR 0xBD, CHR 0xD0,
     CHR 0xB8, CHR 0xD1, CHR 0x80, CHR 0xD0, CHR 0xBE, CHR 0xD0, CHR 0xB2, CHR 0xD0,
     CHR 0xBA, CHR 0xD0, CHR 0xB8, CHR '':'', CHR '' '']"

definition fmt_piece1 :: string where
  "fmt_piece1 =
    [CHR 0x0A, CHR 0xD0, CHR 0x94, CHR 0xD0, CHR 0xBB, CHR 0xD0, CHR 0xB8, CHR 0xD1,
     CHR 0x82, CHR 0xD0, CHR 0xB5, CHR 0xD0, CHR 0xBB, CHR 0xD1, CHR 0x8C, CHR 0xD0,
     CHR 0xBD, CHR 0xD0, CHR 0xBE, CHR 0xD1, CHR 0x81, CHR 0xD1, CHR 0x82, CHR 0xD1,
     CHR 0x8C, CHR '':'', CHR '' '']"

definition fmt_piece2 :: string where
  "fmt_piece2 =
    [CHR '' '', CHR 0xD0, CHR 0xBC, CHR 0xD0, CHR 0xB8, CHR 0xD0, CHR 0xBD, CHR 0x0A,
     CHR 0xD0, CHR 0x94, CHR 0xD0, CHR 0xB8, CHR 0xD1, CHR 0x81, CHR 0xD1, CHR 0x82,
     CHR 0xD0, CHR 0xB0, CHR 0xD0, CHR 0xBD, CHR 0xD1, CHR 0x86, CHR 0xD0, CHR 0xB8,
     CHR 0xD1, CHR 0x8F, CHR '':'', CHR '' '']"

definition fmt_piece3 :: string where
  "fmt_piece3 =
    [CHR '' '', CHR 0xD0, CHR 0xBA, CHR 0xD0, CHR 0xBC, CHR 0x0A, CHR 0xD0, CHR 0xA1,
     CHR 0xD1, CHR 0x80, CHR ''.'', CHR '' '', CHR 0xD1, CHR 0x81, CHR 0xD0, CHR 0xBA,
     CHR 0xD0, CHR 0xBE, CHR 0xD1, CHR 0x80, CHR 0xD0, CHR 0xBE, CHR 0xD1, CHR 0x81,
     CHR 0xD1, CHR 0x82, CHR 0xD1, CHR 0x8C, CHR '':'', CHR '' '']"

definition fmt_piece4 :: string where
  "fmt_piece4 =
    [CHR '' '', CHR 0xD0, CHR 0xBA, CHR 0xD0, CHR 0xBC, CHR ''/'', CHR 0xD1, CHR 0x87,
     CHR 0x0A, CHR 0xD0, CHR 0x9F, CHR 0xD0, CHR 0xBE, CHR 0xD1, CHR 0x82, CHR 0xD1,
     CHR 0x80, CHR 0xD0, CHR 0xB0, CHR 0xD1, CHR 0x87, CHR 0xD0, CHR 0xB5, CHR 0xD0,
     CHR 0xBD, CHR 0xD0, CHR 0xBE, CHR '' '', CHR 0xD0, CHR 0xBA, CHR 0xD0, CHR 0xBA,
     CHR 0xD0, CHR 0xB0, CHR 0xD0, CHR 0xBB, CHR '':'', CHR '' '']"

definition fmt_piece5 :: string where
  "fmt_piece5 = [CHR 0x0A]"

text \<open>\<^verbatim>\<open>fmt.Sprintf\<close> with that format string, on its five operands already rendered.\<close>

definition Sprintf_summary :: "string \<Rightarrow> string \<Rightarrow> string \<Rightarrow> string \<Rightarrow> string \<Rightarrow> string" where
  "Sprintf_summary kind minutes km kmh kcal =
     fmt_piece0 @ kind @ fmt_piece1 @ minutes @ fmt_piece2 @ km @
     fmt_piece3 @ kmh @ fmt_piece4 @ kcal @ fmt_piece5"

text \<open>The three workout labels of \<^verbatim>\<open>main\<close> (swimming, walking, running), as UTF-8.\<close>

definition label_swimming :: string where
  "label_swimming =
    [CHR 0xD0, CHR 0x9F, CHR 0xD0, CHR 0xBB, CHR 0xD0, CHR 0xB0, CHR 0xD0, CHR 0xB2,
     CHR 0xD0, CHR 0xB0, CHR 0xD0, CHR 0xBD, CHR 0xD0, CHR 0xB8, CHR 0xD0, CHR 0xB5]"

definition label_walking :: string where
  "label_walking =
    [CHR 0xD0, CHR 0xA5, CHR 0xD0, CHR 0xBE, CHR 0xD0, CHR 0xB4, CHR 0xD1, CHR 0x8C,
     CHR 0xD0, CHR 0xB1, CHR 0xD0, CHR 0xB0]"

definition label_running :: string where
  "label_running = [CHR 0xD0, CHR 0x91, CHR 0xD0, CHR 0xB5, CHR 0xD0, CHR 0xB3]"

text \<open>\<^verbatim>\<open>fmt.Println\<close> of one string onto the standard output written so far.\<close>

definition Println :: "string \<Rightarrow> string \<Rightarrow> string" where
  "Println out s = out @ s @ [CHR 0x0A]"

subsection \<open>The program of \<^verbatim>\<open>src/main.go\<close>\<close>

definition MInKm :: float64 where
  "MInKm = 1000"

definition MinInHours :: float64 where
  "MinInHours = 60"

definition LenStep_const :: float64 where
  "LenStep_const = 65 / 100"

definition CmInM :: float64 where
  "CmInM = 100"

record Training =
  TrainingType :: string
  Action :: go_int
  LenStep :: float64
  Duration :: Duration
  Weight :: float64

definition Training_distance :: "Training \<Rightarrow> float64" where
  "Training_distance train =
     (if sint (Action train) \<le> 0 \<or> LenStep train \<le> 0 then 0
      else float64_of_int (Action train) * LenStep train / MInKm)"

definition Training_meanSpeed :: "Training \<Rightarrow> float64 option" where
  "Training_meanSpeed train =
     (if Hours (Duration train) = 0 then Some 0
      else fdiv (Training_distance train) (Hours (Duration train)))"

definition Training_Calories :: "Training \<Rightarrow> float64" where
  "Training_Calories train = 0"

record InfoMessage =
  MsgTrainingType :: string
  MsgDuration :: Duration
  MsgDistance :: float64
  MsgMeanSpeed :: float64
  MsgCalories :: float64

definition Training_TrainingInfo :: "Training \<Rightarrow> InfoMessage option" where
  "Training_TrainingInfo train =
     do {
       ms \<leftarrow> Training_meanSpeed train;
       Some \<lparr>MsgTrainingType = TrainingType train,
             MsgDuration = Duration train,
             MsgDistance = Training_distance train,
             MsgMeanSpeed = ms,
             MsgCalories = Training_Calories train\<rparr>
     }"

definition InfoMessage_String :: "InfoMessage \<Rightarrow> string" where
  "InfoMessage_String infoMsg =
     Sprintf_summary
       (MsgTrainingType infoMsg)
       (fmt_f 0 (Minutes (MsgDuration infoMsg)))
       (fmt_f 2 (MsgDistance infoMsg))
       (fmt_f 2 (MsgMeanSpeed infoMsg))
       (fmt_f 2 (MsgCalories infoMsg))"

definition CaloriesMeanSpeedMultiplier :: float64 where
  "CaloriesMeanSpeedMultiplier = 18"

definition CaloriesMeanSpeedShift :: float64 where
  "CaloriesMeanSpeedShift = 179 / 100"

record Running =
  Running_Training :: Training

definition Running_Calories :: "Running \<Rightarrow> float64 option" where
  "Running_Calories run =
     do {
       ms \<leftarrow> Training_meanSpeed (Running_Training run);
       if ms = 0 \<or> Weight (Running_Training run) \<le> 0 then Some 0
       else do {
         ms' \<leftarrow> Training_meanSpeed (Running_Training run);
         Some ((CaloriesMeanSpeedMultiplier * ms' + CaloriesMeanSpeedShift) *
               Weight (Running_Training run) / MInKm *
               (Hours (Duration (Running_Training run)) * MinInHours))
       }
     }"

definition Running_TrainingInfo :: "Running \<Rightarrow> InfoMessage option" where
  "Running_TrainingInfo run = Training_TrainingInfo (Running_Training run)"

definition CaloriesWeightMultiplier :: float64 where
  "CaloriesWeightMultiplier = 35 / 1000"

definition CaloriesSpeedHeightMultiplier :: float64 where
  "CaloriesSpeedHeightMultiplier = 29 / 1000"

definition KmHInMsec :: float64 where
  "KmHInMsec = 278 / 1000"

record Walking =
  Walking_Training :: Training
  Height :: float64

definition Walking_Calories :: "Walking \<Rightarrow> float64 option" where
  "Walking_Calories walk =
     (if Weight (Walking_Training walk) \<le> 0 \<or> Height walk \<le> 0 then Some 0
      else do {
        ms \<leftarrow> Training_meanSpeed (Walking_Training walk);
        if ms = 0 then Some 0
        else do {
          ms' \<leftarrow> Training_meanSpeed (Walking_Training walk);
          let speedInMs = ms' * KmHInMsec;
              heightInM = Height walk / CmInM
          in do {
            q \<leftarrow> fdiv (math_Pow2 speedInMs) heightInM;
            Some ((CaloriesWeightMultiplier * Weight (Walking_Training walk) +
                   q * CaloriesSpeedHeightMultiplier * Weight (Walking_Training walk)) *
                  Hours (Duration (Walking_Training walk)) * MinInHours)
          }
        }
      })"

definition Walking_TrainingInfo :: "Walking \<Rightarrow> InfoMessage option" where
  "Walking_TrainingInfo walk = Training_TrainingInfo (Walking_Training walk)"

definition SwimmingLenStep :: float64 where
  "SwimmingLenStep = 138 / 100"

definition SwimmingCaloriesMeanSpeedShift :: float64 where
  "SwimmingCaloriesMeanSpeedShift = 11 / 10"

definition SwimmingCaloriesWeightMultiplier :: float64 where
  "SwimmingCaloriesWeightMultiplier = 2"

record Swimming =
  Swimming_Training :: Training
  LengthPool :: go_int
  CountPool :: go_int

definition Swimming_meanSpeed :: "Swimming \<Rightarrow> float64 option" where
  "Swimming_meanSpeed swim =
     (if sint (LengthPool swim) \<le> 0 \<or> sint (CountPool swim) \<le> 0 \<or>
         Hours (Duration (Swimming_Training swim)) = 0 then Some 0
      else fdiv (float64_of_int (LengthPool swim) * float64_of_int (CountPool swim) / MInKm)
                (Hours (Duration (Swimming_Training swim))))"

definition Swimming_Calories :: "Swimming \<Rightarrow> float64 option" where
  "Swimming_Calories swim =
     (if Weight (Swimming_Training swim) \<le> 0 then Some 0
      else do {
        ms \<leftarrow> Swimming_meanSpeed swim;
        if ms = 0 then Some 0
        else do {
          ms' \<leftarrow> Swimming_meanSpeed swim;
          Some ((ms' + SwimmingCaloriesMeanSpeedShift) *
                SwimmingCaloriesWeightMultiplier * Weight (Swimming_Training swim) *
                Hours (Duration (Swimming_Training swim)))
        }
      })"

definition Swimming_TrainingInfo :: "Swimming \<Rightarrow> InfoMessage option" where
  "Swimming_TrainingInfo swim =
     do {
       ms \<leftarrow> Swimming_meanSpeed swim;
       c \<leftarrow> Swimming_Calories swim;
       Some \<lparr>MsgTrainingType = TrainingType (Swimming_Training swim),
             MsgDuration = Duration (Swimming_Training swim),
             MsgDistance = Training_distance (Swimming_Training swim),
             MsgMeanSpeed = ms,
             MsgCalories = c\<rparr>
     }"

text \<open>
  The interface \<^verbatim>\<open>CaloriesCalculator\<close>. Its implementations are the four types with the
  methods \<^verbatim>\<open>Calories\<close> and \<^verbatim>\<open>TrainingInfo\<close>: \<open>Training\<close> itself and the three
  workout kinds.
\<close>

datatype CaloriesCalculator =
  OfTraining Training
| OfRunning Running
| OfWalking Walking
| OfSwimming Swimming

fun Calories :: "CaloriesCalculator \<Rightarrow> float64 option" where
  "Calories (OfTraining train) = Some (Training_Calories train)"
| "Calories (OfRunning run) = Running_Calories run"
| "Calories (OfWalking walk) = Walking_Calories walk"
| "Calories (OfSwimming swim) = Swimming_Calories swim"

fun TrainingInfo :: "CaloriesCalculator \<Rightarrow> InfoMessage option" where
  "TrainingInfo (OfTraining train) = Training_TrainingInfo train"
| "TrainingInfo (OfRunning run) = Running_TrainingInfo run"
| "TrainingInfo (OfWalking walk) = Walking_TrainingInfo walk"
| "TrainingInfo (OfSwimming swim) = Swimming_TrainingInfo swim"

text \<open>
  \<^verbatim>\<open>ReadData\<close>: \<^verbatim>\<open>fmt.Sprint\<close> of an \<open>InfoMessage\<close> calls its \<^verbatim>\<open>String\<close> method.
  \<open>ReadData_msg\<close> is the message just before it is rendered.
\<close>

definition ReadData_msg :: "CaloriesCalculator \<Rightarrow> InfoMessage option" where
  "ReadData_msg training =
     do {
       spentCalories \<leftarrow> Calories training;
       infoMsg \<leftarrow> TrainingInfo training;
       Some (infoMsg\<lparr>MsgCalories := spentCalories\<rparr>)
     }"

definition ReadData :: "CaloriesCalculator \<Rightarrow> string option" where
  "ReadData training = map_option InfoMessage_String (ReadData_msg training)"

definition swimTraining :: Swimming where
  "swimTraining =
     \<lparr>Swimming_Training =
        \<lparr>TrainingType = label_swimming, Action = 2000, LenStep = SwimmingLenStep,
         Duration = 90 * Minute, Weight = 85\<rparr>,
      LengthPool = 50, CountPool = 5\<rparr>"

definition walkTraining :: Walking where
  "walkTraining =
     \<lparr>Walking_Training =
        \<lparr>TrainingType = label_walking, Action = 20000, LenStep = LenStep_const,
         Duration = 3 * Hour + 45 * Minute, Weight = 85\<rparr>,
      Height = 185\<rparr>"

definition runTraining :: Running where
  "runTraining =
     \<lparr>Running_Training =
        \<lparr>TrainingType = label_running, Action = 5000, LenStep = LenStep_const,
         Duration = 30 * Minute, Weight = 85\<rparr>\<rparr>"

text \<open>
  The statement \<^verbatim>\<open>fmt.Println(ReadData(training))\<close>, on the standard output written so
  far, and the standard output of \<^verbatim>\<open>main\<close>, which runs it on the three samples.
\<close>

definition Println_ReadData :: "CaloriesCalculator \<Rightarrow> string \<Rightarrow> string option" where
  "Println_ReadData training out = map_option (Println out) (ReadData training)"

definition main_stdout :: "string option" where
  "main_stdout =
     do {
       out1 \<leftarrow> Println_ReadData (OfSwimming swimTraining) [];
       out2 \<leftarrow> Println_ReadData (OfWalking walkTraining) out1;
       Println_ReadData (OfRunning runTraining) out2
     }"

subsection \<open>The program of \<^verbatim>\<open>src/unnamed/part_000\<close>\<close>

definition metersInKm :: float64 where
  "metersInKm = 1000"

definition minutesInHour :: float64 where
  "minutesInHour = 60"

definition defaultStepLength :: float64 where
  "defaultStepLength = 65 / 100"

definition cmInMeter :: float64 where
  "cmInMeter = 100"

definition caloriesSpeedMultiplier :: float64 where
  "caloriesSpeedMultiplier = 18"

definition caloriesSpeedShift :: float64 where
  "caloriesSpeedShift = 179 / 100"

definition SwimmingLenStep_v2 :: float64 where
  "SwimmingLenStep_v2 = 138 / 100"

definition SwimmingCaloriesMeanSpeedShift_v2 :: float64 where
  "SwimmingCaloriesMeanSpeedShift_v2 = 11 / 10"

definition SwimmingCaloriesWeightMultiplier_v2 :: float64 where
  "SwimmingCaloriesWeightMultiplier_v2 = 2"

record Training_v2 =
  Type_v2 :: string
  Action_v2 :: go_int
  StepLength :: float64
  Duration_v2 :: Duration
  Weight_v2 :: float64

definition Training_distance_v2 :: "Training_v2 \<Rightarrow> float64" where
  "Training_distance_v2 t =
     (if StepLength t \<le> 0 then 0
      else float64_of_int (Action_v2 t) * StepLength t / metersInKm)"

definition Training_meanSpeed_v2 :: "Training_v2 \<Rightarrow> float64 option" where
  "Training_meanSpeed_v2 t =
     (if sint (Duration_v2 t) \<le> 0 then Some 0
      else fdiv (Training_distance_v2 t) (Hours (Duration_v2 t)))"

definition Training_Calories_v2 :: "Training_v2 \<Rightarrow> float64" where
  "Training_Calories_v2 t = 0"

record InfoMessage_v2 =
  MsgType_v2 :: string
  MsgDuration_v2 :: Duration
  MsgDistance_v2 :: float64
  MsgMeanSpeed_v2 :: float64
  MsgCalories_v2 :: float64

definition Training_TrainingInfo_v2 :: "Training_v2 \<Rightarrow> InfoMessage_v2 option" where
  "Training_TrainingInfo_v2 t =
     do {
       ms \<leftarrow> Training_meanSpeed_v2 t;
       Some \<lparr>MsgType_v2 = Type_v2 t,
             MsgDuration_v2 = Duration_v2 t,
             MsgDistance_v2 = Training_distance_v2 t,
             MsgMeanSpeed_v2 = ms,
             MsgCalories_v2 = Training_Calories_v2 t\<rparr>
     }"

definition InfoMessage_String_v2 :: "InfoMessage_v2 \<Rightarrow> string" where
  "InfoMessage_String_v2 i =
     Sprintf_summary
       (MsgType_v2 i)
       (fmt_f 0 (Minutes (MsgDuration_v2 i)))
       (fmt_f 2 (MsgDistance_v2 i))
       (fmt_f 2 (MsgMeanSpeed_v2 i))
       (fmt_f 2 (MsgCalories_v2 i))"

record Running_v2 =
  Running_Training_v2 :: Training_v2

definition Running_Calories_v2 :: "Running_v2 \<Rightarrow> float64 option" where
  "Running_Calories_v2 r =
     (if Weight_v2 (Running_Training_v2 r) \<le> 0 then Some 0
      else do {
        ms \<leftarrow> Training_meanSpeed_v2 (Running_Training_v2 r);
        if ms \<le> 0 then Some 0
        else do {
          ms' \<leftarrow> Training_meanSpeed_v2 (Running_Training_v2 r);
          Some ((caloriesSpeedMultiplier * ms' + caloriesSpeedShift) *
                Weight_v2 (Running_Training_v2 r) / metersInKm *
                Hours (Duration_v2 (Running_Training_v2 r)) * minutesInHour)
        }
      })"

record Walking_v2 =
  Walking_Training_v2 :: Training_v2
  Height_v2 :: float64

text \<open>
  \<^verbatim>\<open>Walking.Calories\<close> has the local constants \<^verbatim>\<open>weightMultiplier = 0.035\<close> and
  \<^verbatim>\<open>speedHeightMultiplier = 0.029\<close>.
\<close>

definition Walking_Calories_v2 :: "Walking_v2 \<Rightarrow> float64 option" where
  "Walking_Calories_v2 w =
     (if Weight_v2 (Walking_Training_v2 w) \<le> 0 \<or> Height_v2 w \<le> 0 then Some 0
      else do {
        ms \<leftarrow> Training_meanSpeed_v2 (Walking_Training_v2 w);
        if ms \<le> 0 then Some 0
        else do {
          ms' \<leftarrow> Training_meanSpeed_v2 (Walking_Training_v2 w);
          let weightMultiplier = 35 / 1000;
              speedHeightMultiplier = 29 / 1000;
              speedMetersPerSecond = ms' * 1000 / 3600
          in do {
            q \<leftarrow> fdiv (math_Pow2 speedMetersPerSecond) (Height_v2 w / cmInMeter);
            Some ((weightMultiplier * Weight_v2 (Walking_Training_v2 w) +
                   q * speedHeightMultiplier * Weight_v2 (Walking_Training_v2 w)) *
                  Hours (Duration_v2 (Walking_Training_v2 w)) * minutesInHour)
          }
        }
      })"

record Swimming_v2 =
  Swimming_Training_v2 :: Training_v2
  PoolLength :: go_int
  PoolCount :: go_int

text \<open>The product \<^verbatim>\<open>s.PoolLength*s.PoolCount\<close> is taken on \<open>int\<close>, so it wraps.\<close>

definition Swimming_meanSpeed_v2 :: "Swimming_v2 \<Rightarrow> float64 option" where
  "Swimming_meanSpeed_v2 s =
     (if sint (PoolLength s) \<le> 0 \<or> sint (Duration_v2 (Swimming_Training_v2 s)) \<le> 0
      then Some 0
      else fdiv (float64_of_int (PoolLength s * PoolCount s) / metersInKm)
                (Hours (Duration_v2 (Swimming_Training_v2 s))))"

definition Swimming_Calories_v2 :: "Swimming_v2 \<Rightarrow> float64 option" where
  "Swimming_Calories_v2 s =
     (if Weight_v2 (Swimming_Training_v2 s) \<le> 0 then Some 0
      else do {
        ms \<leftarrow> Swimming_meanSpeed_v2 s;
        if ms \<le> 0 then Some 0
        else do {
          ms' \<leftarrow> Swimming_meanSpeed_v2 s;
          let caloriesSpeedShift' = SwimmingCaloriesMeanSpeedShift_v2;
              caloriesWeightFactor = SwimmingCaloriesWeightMultiplier_v2
          in Some ((ms' + caloriesSpeedShift') * caloriesWeightFactor *
                   Weight_v2 (Swimming_Training_v2 s) *
                   Hours (Duration_v2 (Swimming_Training_v2 s)))
        }
      })"

text \<open>
  The interface \<^verbatim>\<open>CaloriesCalculator\<close> of this version. None of \<open>Running\<close>, \<open>Walking\<close>
  and \<open>Swimming\<close> declares \<^verbatim>\<open>TrainingInfo\<close>: each has it by promotion from the embedded
  \<open>Training\<close>, so the call \<^verbatim>\<open>x.TrainingInfo()\<close> is \<^verbatim>\<open>x.Training.TrainingInfo()\<close>, whose
  receiver is the embedded \<open>Training\<close> value. \<^verbatim>\<open>Calories\<close> is declared by each of them.
\<close>

datatype CaloriesCalculator_v2 =
  OfTraining_v2 Training_v2
| OfRunning_v2 Running_v2
| OfWalking_v2 Walking_v2
| OfSwimming_v2 Swimming_v2

fun Calories_v2 :: "CaloriesCalculator_v2 \<Rightarrow> float64 option" where
  "Calories_v2 (OfTraining_v2 t) = Some (Training_Calories_v2 t)"
| "Calories_v2 (OfRunning_v2 r) = Running_Calories_v2 r"
| "Calories_v2 (OfWalking_v2 w) = Walking_Calories_v2 w"
| "Calories_v2 (OfSwimming_v2 s) = Swimming_Calories_v2 s"

fun TrainingInfo_v2 :: "CaloriesCalculator_v2 \<Rightarrow> InfoMessage_v2 option" where
  "TrainingInfo_v2 (OfTraining_v2 t) = Training_TrainingInfo_v2 t"
| "TrainingInfo_v2 (OfRunning_v2 r) = Training_TrainingInfo_v2 (Running_Training_v2 r)"
| "TrainingInfo_v2 (OfWalking_v2 w) = Training_TrainingInfo_v2 (Walking_Training_v2 w)"
| "TrainingInfo_v2 (OfSwimming_v2 s) = Training_TrainingInfo_v2 (Swimming_Training_v2 s)"

definition ReadData_msg_v2 :: "CaloriesCalculator_v2 \<Rightarrow> InfoMessage_v2 option" where
  "ReadData_msg_v2 training =
     do {
       info \<leftarrow> TrainingInfo_v2 training;
       Some info
     }"

definition ReadData_v2 :: "CaloriesCalculator_v2 \<Rightarrow> string option" where
  "ReadData_v2 training = map_option InfoMessage_String_v2 (ReadData_msg_v2 training)"

definition swimming :: Swimming_v2 where
  "swimming =
     \<lparr>Swimming_Training_v2 =
        \<lparr>Type_v2 = label_swimming, Action_v2 = 2000, StepLength = SwimmingLenStep_v2,
         Duration_v2 = 90 * Minute, Weight_v2 = 85\<rparr>,
      PoolLength = 50, PoolCount = 5\<rparr>"

definition walking :: Walking_v2 where
  "walking =
     \<lparr>Walking_Training_v2 =
        \<lparr>Type_v2 = label_walking, Action_v2 = 20000, StepLength = defaultStepLength,
         Duration_v2 = 3 * Hour + 45 * Minute, Weight_v2 = 85\<rparr>,
      Height_v2 = 185\<rparr>"

definition running :: Running_v2 where
  "running =
     \<lparr>Running_Training_v2 =
        \<lparr>Type_v2 = label_running, Action_v2 = 5000, StepLength = defaultStepLength,
         Duration_v2 = 30 * Minute, Weight_v2 = 85\<rparr>\<rparr>"

definition Println_ReadData_v2 :: "CaloriesCalculator_v2 \<Rightarrow> string \<Rightarrow> string option" where
  "Println_ReadData_v2 training out = map_option (Println out) (ReadData_v2 training)"

definition main_stdout_v2 :: "string option" where
  "main_stdout_v2 =
     do {
       out1 \<leftarrow> Println_ReadData_v2 (OfSwimming_v2 swimming) [];
       out2 \<leftarrow> Println_ReadData_v2 (OfWalking_v2 walking) out1;
       Println_ReadData_v2 (OfRunning_v2 running) out2
     }"

subsection \<open>Durations and guarded divisions\<close>

lemma Hours_eq: "Hours d = real_of_int (sint d) / 3600000000000"
proof -
  have "sint d sdiv 3600000000000 * 3600000000000 + sint d smod 3600000000000 = sint d"
    by (rule sdiv_mult_smod_eq)
  then have "real_of_int (sint d sdiv 3600000000000 * 3600000000000 + sint d smod 3600000000000)
      = real_of_int (sint d)"
    by (rule arg_cong)
  then have "real_of_int (sint d sdiv 3600000000000) * 3600000000000
      + real_of_int (sint d smod 3600000000000) = real_of_int (sint d)"
    by simp
  then show ?thesis by (simp add: Hours_def Hour_def Let_def field_simps)
qed

lemma Minutes_eq: "Minutes d = real_of_int (sint d) / 60000000000"
proof -
  have "sint d sdiv 60000000000 * 60000000000 + sint d smod 60000000000 = sint d"
    by (rule sdiv_mult_smod_eq)
  then have "real_of_int (sint d sdiv 60000000000 * 60000000000 + sint d smod 60000000000)
      = real_of_int (sint d)"
    by (rule arg_cong)
  then have "real_of_int (sint d sdiv 60000000000) * 60000000000
      + real_of_int (sint d smod 60000000000) = real_of_int (sint d)"
    by simp
  then show ?thesis by (simp add: Minutes_def Minute_def Let_def field_simps)
qed

lemma Hours_zero_iff: "Hours d = 0 \<longleftrightarrow> sint d = 0"
  by (simp add: Hours_eq del: of_int_sint)

lemma Hours_pos_iff: "0 < Hours d \<longleftrightarrow> 0 < sint d"
  by (simp add: Hours_eq del: of_int_sint)

lemma Hours_nonpos_iff: "Hours d \<le> 0 \<longleftrightarrow> sint d \<le> 0"
  by (simp add: Hours_eq divide_le_0_iff del: of_int_sint)

lemma Training_meanSpeed_Some:
  "Training_meanSpeed train =
     Some (if Hours (Duration train) = 0 then 0
           else Training_distance train / Hours (Duration train))"
  by (simp add: Training_meanSpeed_def fdiv_def)

lemma Training_meanSpeed_v2_Some:
  "Training_meanSpeed_v2 t =
     Some (if sint (Duration_v2 t) \<le> 0 then 0
           else Training_distance_v2 t / Hours (Duration_v2 t))"
  by (simp add: Training_meanSpeed_v2_def fdiv_def Hours_zero_iff)

lemma Swimming_meanSpeed_Some:
  "Swimming_meanSpeed swim =
     Some (if sint (LengthPool swim) \<le> 0 \<or> sint (CountPool swim) \<le> 0 \<or>
              Hours (Duration (Swimming_Training swim)) = 0 then 0
           else float64_of_int (LengthPool swim) * float64_of_int (CountPool swim) / MInKm /
                Hours (Duration (Swimming_Training swim)))"
  by (simp add: Swimming_meanSpeed_def fdiv_def)

lemma Swimming_meanSpeed_v2_Some:
  "Swimming_meanSpeed_v2 s =
     Some (if sint (PoolLength s) \<le> 0 \<or> sint (Duration_v2 (Swimming_Training_v2 s)) \<le> 0 then 0
           else float64_of_int (PoolLength s * PoolCount s) / metersInKm /
                Hours (Duration_v2 (Swimming_Training_v2 s)))"
  by (simp add: Swimming_meanSpeed_v2_def fdiv_def Hours_zero_iff)

lemma sample_Hours:
  "Hours (90 * Minute) = 3 / 2" "Hours (3 * Hour + 45 * Minute) = 15 / 4"
  "Hours (30 * Minute) = 1 / 2" "Hours (- Hour) = - 1" "Hours Hour = 1"
  by (simp_all add: Hours_eq Minute_def Hour_def)

lemma sample_Minutes:
  "Minutes (90 * Minute) = 90" "Minutes (3 * Hour + 45 * Minute) = 225"
  "Minutes (30 * Minute) = 30"
  by (simp_all add: Minutes_eq Minute_def Hour_def)

text \<open>
  The calorie methods in closed form: each always returns a value, so no division by a
  computed zero is ever reached.
\<close>

lemma Running_Calories_Some:
  "Running_Calories run =
     Some (let ms = (if Hours (Duration (Running_Training run)) = 0 then 0
                     else Training_distance (Running_Training run) /
                          Hours (Duration (Running_Training run)))
           in if ms = 0 \<or> Weight (Running_Training run) \<le> 0 then 0
              else (CaloriesMeanSpeedMultiplier * ms + CaloriesMeanSpeedShift) *
                   Weight (Running_Training run) / MInKm *
                   (Hours (Duration (Running_Training run)) * MinInHours))"
  by (simp add: Running_Calories_def Training_meanSpeed_Some Let_def)

lemma Walking_Calories_Some:
  "Walking_Calories walk =
     Some (let ms = (if Hours (Duration (Walking_Training walk)) = 0 then 0
                     else Training_distance (Walking_Training walk) /
                          Hours (Duration (Walking_Training walk)))
           in if Weight (Walking_Training walk) \<le> 0 \<or> Height walk \<le> 0 \<or> ms = 0 then 0
              else (CaloriesWeightMultiplier * Weight (Walking_Training walk) +
                    math_Pow2 (ms * KmHInMsec) / (Height walk / CmInM) *
                    CaloriesSpeedHeightMultiplier * Weight (Walking_Training walk)) *
                   Hours (Duration (Walking_Training walk)) * MinInHours)"
  by (simp add: Walking_Calories_def Training_meanSpeed_Some Let_def fdiv_def CmInM_def)

lemma Swimming_Calories_Some:
  "Swimming_Calories swim =
     Some (let ms = (if sint (LengthPool swim) \<le> 0 \<or> sint (CountPool swim) \<le> 0 \<or>
                        Hours (Duration (Swimming_Training swim)) = 0 then 0
                     else float64_of_int (LengthPool swim) * float64_of_int (CountPool swim) /
                          MInKm / Hours (Duration (Swimming_Training swim)))
           in if Weight (Swimming_Training swim) \<le> 0 \<or> ms = 0 then 0
              else (ms + SwimmingCaloriesMeanSpeedShift) * SwimmingCaloriesWeightMultiplier *
                   Weight (Swimming_Training swim) * Hours (Duration (Swimming_Training swim)))"
  by (simp add: Swimming_Calories_def Swimming_meanSpeed_Some Let_def)

lemma Running_Calories_v2_Some:
  "Running_Calories_v2 r =
     Some (let ms = (if sint (Duration_v2 (Running_Training_v2 r)) \<le> 0 then 0
                     else Training_distance_v2 (Running_Training_v2 r) /
                          Hours (Duration_v2 (Running_Training_v2 r)))
           in if Weight_v2 (Running_Training_v2 r) \<le> 0 \<or> ms \<le> 0 then 0
              else (caloriesSpeedMultiplier * ms + caloriesSpeedShift) *
                   Weight_v2 (Running_Training_v2 r) / metersInKm *
                   Hours (Duration_v2 (Running_Training_v2 r)) * minutesInHour)"
  by (simp add: Running_Calories_v2_def Training_meanSpeed_v2_Some Let_def)

lemma Walking_Calories_v2_Some:
  "Walking_Calories_v2 w =
     Some (let ms = (if sint (Duration_v2 (Walking_Training_v2 w)) \<le> 0 then 0
                     else Training_distance_v2 (Walking_Training_v2 w) /
                          Hours (Duration_v2 (Walking_Training_v2 w)))
           in if Weight_v2 (Walking_Training_v2 w) \<le> 0 \<or> Height_v2 w \<le> 0 \<or> ms \<le> 0 then 0
              else (35 / 1000 * Weight_v2 (Walking_Training_v2 w) +
                    math_Pow2 (ms * 1000 / 3600) / (Height_v2 w / cmInMeter) *
                    (29 / 1000) * Weight_v2 (Walking_Training_v2 w)) *
                   Hours (Duration_v2 (Walking_Training_v2 w)) * minutesInHour)"
  by (simp add: Walking_Calories_v2_def Training_meanSpeed_v2_Some Let_def fdiv_def cmInMeter_def)

lemma Swimming_Calories_v2_Some:
  "Swimming_Calories_v2 s =
     Some (let ms = (if sint (PoolLength s) \<le> 0 \<or>
                        sint (Duration_v2 (Swimming_Training_v2 s)) \<le> 0 then 0
                     else float64_of_int (PoolLength s * PoolCount s) / metersInKm /
                          Hours (Duration_v2 (Swimming_Training_v2 s)))
           in if Weight_v2 (Swimming_Training_v2 s) \<le> 0 \<or> ms \<le> 0 then 0
              else (ms + SwimmingCaloriesMeanSpeedShift_v2) *
                   SwimmingCaloriesWeightMultiplier_v2 *
                   Weight_v2 (Swimming_Training_v2 s) *
                   Hours (Duration_v2 (Swimming_Training_v2 s)))"
  by (simp add: Swimming_Calories_v2_def Swimming_meanSpeed_v2_Some Let_def)

lemma sample_sint:
  "sint (90 * Minute) = 5400000000000" "sint (3 * Hour + 45 * Minute) = 13500000000000"
  "sint (30 * Minute) = 1800000000000"
  by (simp_all add: Minute_def Hour_def)

subsection \<open>The three sample workouts\<close>

lemma sample_float64_of_int:
  "float64_of_int 2000 = 2000" "float64_of_int 20000 = 20000" "float64_of_int 5000 = 5000"
  "float64_of_int 50 = 50" "float64_of_int 5 = 5" "float64_of_int 250 = 250"
  by (simp_all add: float64_of_int_def)

lemma sample_sint_Action:
  "sint (2000 :: go_int) = 2000" "sint (20000 :: go_int) = 20000" "sint (5000 :: go_int) = 5000"
  "sint (50 :: go_int) = 50" "sint (5 :: go_int) = 5"
  by simp_all

lemma swimTraining_values:
  "Training_distance (Swimming_Training swimTraining) = 69 / 25"
  "Training_meanSpeed (Swimming_Training swimTraining) = Some (46 / 25)"
  "Swimming_meanSpeed swimTraining = Some (1 / 6)"
  "Swimming_Calories swimTraining = Some 323"
  by (simp_all add: Training_distance_def Training_meanSpeed_Some Swimming_meanSpeed_Some
      Swimming_Calories_Some swimTraining_def sample_Hours sample_float64_of_int
      sample_sint_Action MInKm_def SwimmingLenStep_def SwimmingCaloriesMeanSpeedShift_def
      SwimmingCaloriesWeightMultiplier_def Let_def)

lemma swimming_values:
  "Training_distance_v2 (Swimming_Training_v2 swimming) = 69 / 25"
  "Training_meanSpeed_v2 (Swimming_Training_v2 swimming) = Some (46 / 25)"
  "Swimming_meanSpeed_v2 swimming = Some (1 / 6)"
  "Swimming_Calories_v2 swimming = Some 323"
  by (simp_all add: Training_distance_v2_def Training_meanSpeed_v2_Some
      Swimming_meanSpeed_v2_Some Swimming_Calories_v2_Some swimming_def sample_Hours
      sample_sint sample_float64_of_int sample_sint_Action metersInKm_def
      SwimmingLenStep_v2_def SwimmingCaloriesMeanSpeedShift_v2_def
      SwimmingCaloriesWeightMultiplier_v2_def Let_def)

lemma walkTraining_values:
  "Training_distance (Walking_Training walkTraining) = 13"
  "Training_meanSpeed (Walking_Training walkTraining) = Some (52 / 15)"
  "Walking_Calories walkTraining = Some (21918367903 / 23125000)"
  by (simp_all add: Training_distance_def Training_meanSpeed_Some Walking_Calories_Some
      walkTraining_def sample_Hours sample_float64_of_int sample_sint_Action MInKm_def
      LenStep_const_def CaloriesWeightMultiplier_def CaloriesSpeedHeightMultiplier_def
      KmHInMsec_def CmInM_def MinInHours_def math_Pow2_def Let_def)

lemma walking_values:
  "Training_distance_v2 (Walking_Training_v2 walking) = 13"
  "Training_meanSpeed_v2 (Walking_Training_v2 walking) = Some (52 / 15)"
  "Walking_Calories_v2 walking = Some (22714295 / 23976)"
  by (simp_all add: Training_distance_v2_def Training_meanSpeed_v2_Some
      Walking_Calories_v2_Some walking_def sample_Hours sample_sint sample_float64_of_int
      metersInKm_def defaultStepLength_def cmInMeter_def minutesInHour_def math_Pow2_def
      Let_def)

lemma runTraining_values:
  "Training_distance (Running_Training runTraining) = 13 / 4"
  "Training_meanSpeed (Running_Training runTraining) = Some (13 / 2)"
  "Running_Calories runTraining = Some (605829 / 2000)"
  by (simp_all add: Training_distance_def Training_meanSpeed_Some Running_Calories_Some
      runTraining_def sample_Hours sample_float64_of_int sample_sint_Action MInKm_def
      LenStep_const_def CaloriesMeanSpeedMultiplier_def CaloriesMeanSpeedShift_def
      MinInHours_def Let_def)

lemma running_values:
  "Training_distance_v2 (Running_Training_v2 running) = 13 / 4"
  "Training_meanSpeed_v2 (Running_Training_v2 running) = Some (13 / 2)"
  "Running_Calories_v2 running = Some (605829 / 2000)"
  by (simp_all add: Training_distance_v2_def Training_meanSpeed_v2_Some
      Running_Calories_v2_Some running_def sample_Hours sample_sint sample_float64_of_int
      metersInKm_def defaultStepLength_def caloriesSpeedMultiplier_def
      caloriesSpeedShift_def minutesInHour_def Let_def)

lemma sample_fmt_f:
  "fmt_f 0 90 = ''90''" "fmt_f 0 225 = ''225''" "fmt_f 0 30 = ''30''"
  "fmt_f 2 (69 / 25) = ''2.76''" "fmt_f 2 13 = ''13.00''" "fmt_f 2 (13 / 4) = ''3.25''"
  "fmt_f 2 (1 / 6) = ''0.17''" "fmt_f 2 (46 / 25) = ''1.84''" "fmt_f 2 (52 / 15) = ''3.47''"
  "fmt_f 2 (13 / 2) = ''6.50''"
  "fmt_f 2 323 = ''323.00''" "fmt_f 2 (21918367903 / 23125000) = ''947.82''"
  "fmt_f 2 (605829 / 2000) = ''302.91''" "fmt_f 2 0 = ''0.00''"
  by (simp_all add: fmt_f_def round_half_even_def Let_def pad_zeros_def digits.simps)

lemma ReadData_swimTraining:
  "ReadData (OfSwimming swimTraining) =
     Some (Sprintf_summary label_swimming ''90'' ''2.76'' ''0.17'' ''323.00'')"
  by (simp add: ReadData_def ReadData_msg_def Swimming_TrainingInfo_def swimTraining_values
      InfoMessage_String_def sample_fmt_f)
    (simp add: swimTraining_def sample_Minutes sample_fmt_f)

lemma ReadData_walkTraining:
  "ReadData (OfWalking walkTraining) =
     Some (Sprintf_summary label_walking ''225'' ''13.00'' ''3.47'' ''947.82'')"
  by (simp add: ReadData_def ReadData_msg_def Walking_TrainingInfo_def Training_TrainingInfo_def
      walkTraining_values InfoMessage_String_def sample_fmt_f)
    (simp add: walkTraining_def sample_Minutes sample_fmt_f)

lemma ReadData_runTraining:
  "ReadData (OfRunning runTraining) =
     Some (Sprintf_summary label_running ''30'' ''3.25'' ''6.50'' ''302.91'')"
  by (simp add: ReadData_def ReadData_msg_def Running_TrainingInfo_def Training_TrainingInfo_def
      runTraining_values InfoMessage_String_def sample_fmt_f)
    (simp add: runTraining_def sample_Minutes sample_fmt_f)

lemma ReadData_v2_swimming:
  "ReadData_v2 (OfSwimming_v2 swimming) =
     Some (Sprintf_summary label_swimming ''90'' ''2.76'' ''1.84'' ''0.00'')"
  by (simp add: ReadData_v2_def ReadData_msg_v2_def Training_TrainingInfo_v2_def
      swimming_values InfoMessage_String_v2_def sample_fmt_f Training_Calories_v2_def)
    (simp add: swimming_def sample_Minutes sample_fmt_f)

lemma ReadData_v2_walking:
  "ReadData_v2 (OfWalking_v2 walking) =
     Some (Sprintf_summary label_walking ''225'' ''13.00'' ''3.47'' ''0.00'')"
  by (simp add: ReadData_v2_def ReadData_msg_v2_def Training_TrainingInfo_v2_def
      walking_values InfoMessage_String_v2_def sample_fmt_f Training_Calories_v2_def)
    (simp add: walking_def sample_Minutes sample_fmt_f)

lemma ReadData_v2_running:
  "ReadData_v2 (OfRunning_v2 running) =
     Some (Sprintf_summary label_running ''30'' ''3.25'' ''6.50'' ''0.00'')"
  by (simp add: ReadData_v2_def ReadData_msg_v2_def Training_TrainingInfo_v2_def
      running_values InfoMessage_String_v2_def sample_fmt_f Training_Calories_v2_def)
    (simp add: running_def sample_Minutes sample_fmt_f)

subsection \<open>Every summary is defined\<close>

lemma Training_TrainingInfo_v2_Some:
  "Training_TrainingInfo_v2 t =
     Some \<lparr>MsgType_v2 = Type_v2 t,
           MsgDuration_v2 = Duration_v2 t,
           MsgDistance_v2 = Training_distance_v2 t,
           MsgMeanSpeed_v2 = (if sint (Duration_v2 t) \<le> 0 then 0
                              else Training_distance_v2 t / Hours (Duration_v2 t)),
           MsgCalories_v2 = 0\<rparr>"
  by (simp add: Training_TrainingInfo_v2_def Training_meanSpeed_v2_Some Training_Calories_v2_def)

lemma Calories_total: "\<exists>c. Calories training = Some c"
  by (cases training)
    (simp_all add: Running_Calories_Some Walking_Calories_Some Swimming_Calories_Some)

lemma TrainingInfo_total: "\<exists>i. TrainingInfo training = Some i"
  by (cases training)
    (simp_all add: Training_TrainingInfo_def Running_TrainingInfo_def Walking_TrainingInfo_def
      Swimming_TrainingInfo_def Training_meanSpeed_Some Swimming_meanSpeed_Some
      Swimming_Calories_Some)

lemma ReadData_total: "\<exists>s. ReadData training = Some s"
proof -
  obtain c i where "Calories training = Some c" "TrainingInfo training = Some i"
    using Calories_total TrainingInfo_total by blast
  then show ?thesis by (simp add: ReadData_def ReadData_msg_def)
qed

lemma ReadData_v2_total: "\<exists>s. ReadData_v2 training = Some s"
  by (cases training)
    (simp_all add: ReadData_v2_def ReadData_msg_v2_def Training_TrainingInfo_v2_Some)

subsection \<open>Zero results and signs\<close>

lemma Training_distance_nonneg: "0 \<le> Training_distance train"
  by (simp add: Training_distance_def float64_of_int_def MInKm_def del: of_int_sint)

lemma Training_distance_zero: "LenStep train \<le> 0 \<Longrightarrow> Training_distance train = 0"
  by (simp add: Training_distance_def)

lemma Training_distance_v2_zero: "StepLength t \<le> 0 \<Longrightarrow> Training_distance_v2 t = 0"
  by (simp add: Training_distance_v2_def)

lemma Training_meanSpeed_zero: "Duration train = 0 \<Longrightarrow> Training_meanSpeed train = Some 0"
  by (simp add: Training_meanSpeed_Some Hours_zero_iff)

lemma Training_meanSpeed_v2_zero:
  "sint (Duration_v2 t) \<le> 0 \<Longrightarrow> Training_meanSpeed_v2 t = Some 0"
  by (simp add: Training_meanSpeed_v2_Some)

lemma Swimming_meanSpeed_v2_zero:
  "sint (Duration_v2 (Swimming_Training_v2 s)) \<le> 0 \<Longrightarrow> Swimming_meanSpeed_v2 s = Some 0"
  by (simp add: Swimming_meanSpeed_v2_Some)

lemma Training_meanSpeed_nonneg:
  "0 \<le> sint (Duration train) \<Longrightarrow> Training_meanSpeed train = Some v \<Longrightarrow> 0 \<le> v"
  using Training_distance_nonneg [of train] Hours_nonpos_iff [of "Duration train"]
  by (auto simp: Training_meanSpeed_Some Hours_zero_iff split: if_splits)

lemma Running_Calories_v2_nonneg:
  assumes "Running_Calories_v2 r = Some v"
  shows "0 \<le> v"
proof -
  define W where "W = Weight_v2 (Running_Training_v2 r)"
  define H where "H = Hours (Duration_v2 (Running_Training_v2 r))"
  define ms where "ms = (if sint (Duration_v2 (Running_Training_v2 r)) \<le> 0 then 0
    else Training_distance_v2 (Running_Training_v2 r) / H)"
  have "Running_Calories_v2 r =
      Some (if W \<le> 0 \<or> ms \<le> 0 then 0 else (18 * ms + 179 / 100) * W / 1000 * H * 60)"
    by (simp only: Running_Calories_v2_Some Let_def W_def H_def ms_def
        caloriesSpeedMultiplier_def caloriesSpeedShift_def metersInKm_def minutesInHour_def)
  with assms have v: "v = (if W \<le> 0 \<or> ms \<le> 0 then 0
      else (18 * ms + 179 / 100) * W / 1000 * H * 60)"
    by (simp only: option.inject)
  show ?thesis
  proof (cases "W \<le> 0 \<or> ms \<le> 0")
    case True
    with v show ?thesis by simp
  next
    case False
    then have "0 < W" "0 < ms" by simp_all
    moreover from \<open>0 < ms\<close> have "0 < H"
      by (simp add: ms_def H_def Hours_pos_iff split: if_splits)
    ultimately have "0 \<le> (18 * ms + 179 / 100) * W / 1000 * H * 60"
      by simp
    with v False show ?thesis by simp
  qed
qed

lemma Walking_Calories_v2_nonneg:
  assumes "Walking_Calories_v2 w = Some v"
  shows "0 \<le> v"
proof -
  define W where "W = Weight_v2 (Walking_Training_v2 w)"
  define H where "H = Hours (Duration_v2 (Walking_Training_v2 w))"
  define ms where "ms = (if sint (Duration_v2 (Walking_Training_v2 w)) \<le> 0 then 0
    else Training_distance_v2 (Walking_Training_v2 w) / H)"
  define q where "q = math_Pow2 (ms * 1000 / 3600) / (Height_v2 w / 100)"
  have "Walking_Calories_v2 w =
      Some (if W \<le> 0 \<or> Height_v2 w \<le> 0 \<or> ms \<le> 0 then 0
            else (35 / 1000 * W + q * (29 / 1000) * W) * H * 60)"
    by (simp only: Walking_Calories_v2_Some Let_def W_def H_def ms_def q_def cmInMeter_def
        minutesInHour_def)
  with assms have v: "v = (if W \<le> 0 \<or> Height_v2 w \<le> 0 \<or> ms \<le> 0 then 0
      else (35 / 1000 * W + q * (29 / 1000) * W) * H * 60)"
    by (simp only: option.inject)
  show ?thesis
  proof (cases "W \<le> 0 \<or> Height_v2 w \<le> 0 \<or> ms \<le> 0")
    case True
    with v show ?thesis by simp
  next
    case False
    then have pos: "0 < W" "0 < Height_v2 w" "0 < ms" by simp_all
    from \<open>0 < ms\<close> have "0 < H"
      by (simp add: ms_def H_def Hours_pos_iff split: if_splits)
    moreover from pos have "0 \<le> q"
      by (simp add: q_def math_Pow2_def)
    ultimately have "0 \<le> (35 / 1000 * W + q * (29 / 1000) * W) * H * 60"
      using pos by simp
    with v False show ?thesis by simp
  qed
qed

lemma Swimming_Calories_v2_nonneg:
  assumes "Swimming_Calories_v2 s = Some v"
  shows "0 \<le> v"
proof -
  define W where "W = Weight_v2 (Swimming_Training_v2 s)"
  define H where "H = Hours (Duration_v2 (Swimming_Training_v2 s))"
  define ms where "ms = (if sint (PoolLength s) \<le> 0 \<or>
      sint (Duration_v2 (Swimming_Training_v2 s)) \<le> 0 then 0
    else float64_of_int (PoolLength s * PoolCount s) / metersInKm / H)"
  have "Swimming_Calories_v2 s =
      Some (if W \<le> 0 \<or> ms \<le> 0 then 0 else (ms + 11 / 10) * 2 * W * H)"
    by (simp only: Swimming_Calories_v2_Some Let_def W_def H_def ms_def
        SwimmingCaloriesMeanSpeedShift_v2_def SwimmingCaloriesWeightMultiplier_v2_def)
  with assms have v: "v = (if W \<le> 0 \<or> ms \<le> 0 then 0 else (ms + 11 / 10) * 2 * W * H)"
    by (simp only: option.inject)
  show ?thesis
  proof (cases "W \<le> 0 \<or> ms \<le> 0")
    case True
    with v show ?thesis by simp
  next
    case False
    then have "0 < W" "0 < ms" by simp_all
    moreover from \<open>0 < ms\<close> have "0 < H"
      by (simp add: ms_def H_def Hours_pos_iff split: if_splits)
    ultimately have "0 \<le> (ms + 11 / 10) * 2 * W * H"
      by simp
    with v False show ?thesis by simp
  qed
qed

lemma Calories_v2_nonneg: "Calories_v2 training = Some v \<Longrightarrow> 0 \<le> v"
  by (cases training)
    (simp_all add: Training_Calories_v2_def Running_Calories_v2_nonneg
      Walking_Calories_v2_nonneg Swimming_Calories_v2_nonneg)

section \<open>Properties of the two programs\<close>

text \<open>
  C1 (the two versions print identical output for the three compiled-in samples), at the
  program's only run: the outputs differ. \<^verbatim>\<open>src/main.go\<close> prints the calories of each kind and the pool-based mean speed of the
  swimming sample; \<^verbatim>\<open>src/unnamed/part_000\<close> prints 0.00 calories in all three blocks and
  the step-based mean speed 1.84 for the swimming sample.
\<close>

theorem main_stdout_versions_differ:
  "main_stdout =
     Some (Println (Println (Println []
       (Sprintf_summary label_swimming ''90'' ''2.76'' ''0.17'' ''323.00''))
       (Sprintf_summary label_walking ''225'' ''13.00'' ''3.47'' ''947.82''))
       (Sprintf_summary label_running ''30'' ''3.25'' ''6.50'' ''302.91'')) \<and>
   main_stdout_v2 =
     Some (Println (Println (Println []
       (Sprintf_summary label_swimming ''90'' ''2.76'' ''1.84'' ''0.00''))
       (Sprintf_summary label_walking ''225'' ''13.00'' ''3.47'' ''0.00''))
       (Sprintf_summary label_running ''30'' ''3.25'' ''6.50'' ''0.00'')) \<and>
   main_stdout \<noteq> main_stdout_v2"
proof -
  have m: "main_stdout =
     Some (Println (Println (Println []
       (Sprintf_summary label_swimming ''90'' ''2.76'' ''0.17'' ''323.00''))
       (Sprintf_summary label_walking ''225'' ''13.00'' ''3.47'' ''947.82''))
       (Sprintf_summary label_running ''30'' ''3.25'' ''6.50'' ''302.91''))"
    by (simp add: main_stdout_def Println_ReadData_def ReadData_swimTraining ReadData_walkTraining
        ReadData_runTraining)
  have v: "main_stdout_v2 =
     Some (Println (Println (Println []
       (Sprintf_summary label_swimming ''90'' ''2.76'' ''1.84'' ''0.00''))
       (Sprintf_summary label_walking ''225'' ''13.00'' ''3.47'' ''0.00''))
       (Sprintf_summary label_running ''30'' ''3.25'' ''6.50'' ''0.00''))"
    by (simp add: main_stdout_v2_def Println_ReadData_v2_def ReadData_v2_swimming ReadData_v2_walking
        ReadData_v2_running)
  have "main_stdout \<noteq> main_stdout_v2"
    unfolding m v by (simp add: Println_def Sprintf_summary_def)
  with m v show ?thesis by simp
qed

text \<open>
  C2 (distance, mean speed and calories are non-negative for every record, and zero for
  a non-positive denominator), at failing inputs. In \<^verbatim>\<open>src/main.go\<close> the swimming sample
  with its duration set to minus one hour has a negative base mean speed, a negative
  swimming mean speed and negative calories. In \<^verbatim>\<open>src/unnamed/part_000\<close> the swimming
  sample with its repetition count set to -2000 has a negative distance and a negative
  base mean speed, and with its crossing count set to -5 a negative swimming mean speed.
\<close>

theorem negative_metrics:
  "sint (Duration (Swimming_Training
     (swimTraining\<lparr>Swimming_Training := (Swimming_Training swimTraining)\<lparr>Duration := - Hour\<rparr>\<rparr>)))
     = - 3600000000000 \<and>
   Training_meanSpeed (Swimming_Training
     (swimTraining\<lparr>Swimming_Training := (Swimming_Training swimTraining)\<lparr>Duration := - Hour\<rparr>\<rparr>))
     = Some (- (69 / 25)) \<and>
   Swimming_meanSpeed
     (swimTraining\<lparr>Swimming_Training := (Swimming_Training swimTraining)\<lparr>Duration := - Hour\<rparr>\<rparr>)
     = Some (- (1 / 4)) \<and>
   Swimming_Calories
     (swimTraining\<lparr>Swimming_Training := (Swimming_Training swimTraining)\<lparr>Duration := - Hour\<rparr>\<rparr>)
     = Some (- (289 / 2)) \<and>
   sint (Action_v2 (Swimming_Training_v2
     (swimming\<lparr>Swimming_Training_v2 := (Swimming_Training_v2 swimming)\<lparr>Action_v2 := - 2000\<rparr>\<rparr>)))
     = - 2000 \<and>
   Training_distance_v2 (Swimming_Training_v2
     (swimming\<lparr>Swimming_Training_v2 := (Swimming_Training_v2 swimming)\<lparr>Action_v2 := - 2000\<rparr>\<rparr>))
     = - (69 / 25) \<and>
   Training_meanSpeed_v2 (Swimming_Training_v2
     (swimming\<lparr>Swimming_Training_v2 := (Swimming_Training_v2 swimming)\<lparr>Action_v2 := - 2000\<rparr>\<rparr>))
     = Some (- (46 / 25)) \<and>
   Swimming_meanSpeed_v2 (swimming\<lparr>PoolCount := - 5\<rparr>) = Some (- (1 / 6))"
proof -
  have s: "sint (- Hour) = - 3600000000000" "sint (- 2000 :: go_int) = - 2000"
    "sint (50 * - 5 :: go_int) = - 250"
    by (simp_all add: Hour_def)
  show ?thesis
    by (simp add: Training_meanSpeed_Some Swimming_meanSpeed_Some Swimming_Calories_Some
        Training_distance_def Training_distance_v2_def Training_meanSpeed_v2_Some
        Swimming_meanSpeed_v2_Some swimTraining_def swimming_def sample_Hours sample_sint
        sample_sint_Action sample_float64_of_int s float64_of_int_def MInKm_def
        metersInKm_def SwimmingLenStep_def SwimmingLenStep_v2_def
        SwimmingCaloriesMeanSpeedShift_def SwimmingCaloriesWeightMultiplier_def Let_def
        del: of_int_sint)
qed

text \<open>
  C3 (a duration \<le> 0 gives the mean speed 0 without evaluating the division), at a
  failing input. In \<^verbatim>\<open>src/main.go\<close> a negative duration passes the guard of
  \<^verbatim>\<open>Training.meanSpeed\<close>, which tests \<^verbatim>\<open>Hours() == 0\<close>: for the running sample with its duration set to minus 30 minutes the division is
  evaluated and the mean speed is -6.5, not 0.
\<close>

theorem meanSpeed_negative_duration:
  "sint (Duration (Running_Training
     (runTraining\<lparr>Running_Training := (Running_Training runTraining)\<lparr>Duration := - (30 * Minute)\<rparr>\<rparr>)))
     = - 1800000000000 \<and>
   Training_meanSpeed (Running_Training
     (runTraining\<lparr>Running_Training := (Running_Training runTraining)\<lparr>Duration := - (30 * Minute)\<rparr>\<rparr>))
     = fdiv (13 / 4) (- (1 / 2)) \<and>
   fdiv (13 / 4) (- (1 / 2)) = Some (- (13 / 2)) \<and>
   Some (- (13 / 2)) \<noteq> Some (0 :: real)"
proof -
  have s: "sint (- (30 * Minute)) = - 1800000000000"
    by (simp add: Minute_def)
  have h: "Hours (- (30 * Minute)) = - (1 / 2)"
    by (simp add: Hours_eq s del: of_int_sint)
  show ?thesis
    by (simp add: Training_meanSpeed_def Training_distance_def runTraining_def s h
        sample_sint_Action sample_float64_of_int MInKm_def LenStep_const_def fdiv_def)
qed

text \<open>
  C4 (as stated): for the swimming sample the mean speed is not 1.6667 km/h and the
  calories are not 706.25, in either version.
\<close>

theorem swimming_sample_counterexample:
  "Swimming_meanSpeed swimTraining = Some (1 / 6) \<and>
   Swimming_meanSpeed_v2 swimming = Some (1 / 6) \<and>
   \<not> \<bar>1 / 6 - 16667 / 10000\<bar> \<le> (1 / 10000 :: real) \<and>
   Swimming_Calories swimTraining = Some 323 \<and>
   Swimming_Calories_v2 swimming = Some 323 \<and>
   \<not> \<bar>323 - 70625 / 100\<bar> \<le> (1 / 100 :: real)"
  by (simp add: swimTraining_values swimming_values)

text \<open>
  C4 (amended): for the swimming sample both versions compute the mean speed
  \<open>50 * 5 / 1000 / 1.5 = 1/6\<close>, about 0.1667 km/h, and the calories
  \<open>(1/6 + 1.1) * 2 * 85 * 1.5 = 323\<close>; \<^verbatim>\<open>src/main.go\<close> renders them in the swimming
  summary block as 0.17 and 323.00.
\<close>

theorem swimming_sample_values:
  "Swimming_meanSpeed swimTraining = Some (50 * 5 / 1000 / (3 / 2)) \<and>
   Swimming_meanSpeed_v2 swimming = Some (50 * 5 / 1000 / (3 / 2)) \<and>
   (50 * 5 / 1000 / (3 / 2) :: real) = 1 / 6 \<and>
   \<bar>1 / 6 - 1667 / 10000\<bar> \<le> (1 / 10000 :: real) \<and>
   Swimming_Calories swimTraining = Some ((1 / 6 + 11 / 10) * 2 * 85 * (3 / 2)) \<and>
   Swimming_Calories_v2 swimming = Some ((1 / 6 + 11 / 10) * 2 * 85 * (3 / 2)) \<and>
   ((1 / 6 + 11 / 10) * 2 * 85 * (3 / 2) :: real) = 323 \<and>
   ReadData (OfSwimming swimTraining) =
     Some (Sprintf_summary label_swimming ''90'' ''2.76'' ''0.17'' ''323.00'')"
  by (simp add: swimTraining_values swimming_values ReadData_swimTraining)

text \<open>
  C5 (as stated): for the walking sample the calories are not within 0.01 of 152.04,
  in either version.
\<close>

theorem walking_sample_counterexample:
  "Walking_Calories walkTraining = Some (21918367903 / 23125000) \<and>
   \<not> \<bar>21918367903 / 23125000 - 15204 / 100\<bar> \<le> (1 / 100 :: real) \<and>
   Walking_Calories_v2 walking = Some (22714295 / 23976) \<and>
   \<not> \<bar>22714295 / 23976 - 15204 / 100\<bar> \<le> (1 / 100 :: real)"
  by (simp add: walkTraining_values walking_values)

text \<open>
  C5 (amended): for the walking sample both versions compute the distance 13 km and the
  mean speed \<open>13 / 3.75\<close>, about 3.4667 km/h; the calories of the walking formula are
  within 0.01 of 947.38 in \<^verbatim>\<open>src/unnamed/part_000\<close> (speed converted by
  \<open>* 1000 / 3600\<close>) and within 0.01 of 947.82 in \<^verbatim>\<open>src/main.go\<close> (speed converted by the
  constant 0.278).
\<close>

theorem walking_sample_values:
  "Training_distance (Walking_Training walkTraining) = 13 \<and>
   Training_distance_v2 (Walking_Training_v2 walking) = 13 \<and>
   Training_meanSpeed (Walking_Training walkTraining) = Some (13 / (375 / 100)) \<and>
   Training_meanSpeed_v2 (Walking_Training_v2 walking) = Some (13 / (375 / 100)) \<and>
   \<bar>13 / (375 / 100) - 34667 / 10000\<bar> \<le> (1 / 10000 :: real) \<and>
   Walking_Calories walkTraining =
     Some ((35 / 1000 * 85 + (52 / 15 * (278 / 1000)) ^ 2 / (185 / 100) * (29 / 1000) * 85) *
           (375 / 100) * 60) \<and>
   \<bar>(35 / 1000 * 85 + (52 / 15 * (278 / 1000)) ^ 2 / (185 / 100) * (29 / 1000) * 85) *
      (375 / 100) * 60 - 94782 / 100\<bar> \<le> (1 / 100 :: real) \<and>
   Walking_Calories_v2 walking =
     Some ((35 / 1000 * 85 + (52 / 15 * 1000 / 3600) ^ 2 / (185 / 100) * (29 / 1000) * 85) *
           (375 / 100) * 60) \<and>
   \<bar>(35 / 1000 * 85 + (52 / 15 * 1000 / 3600) ^ 2 / (185 / 100) * (29 / 1000) * 85) *
      (375 / 100) * 60 - 94738 / 100\<bar> \<le> (1 / 100 :: real)"
  by (simp add: walkTraining_values walking_values power2_eq_square)

text \<open>
  C6 (as stated): in \<^verbatim>\<open>src/main.go\<close> the walking sample (weight 85, height 185, mean
  speed 52/15, all positive) does not have the calories of the formula with the speed
  converted by \<open>* 1000 / 3600\<close>.
\<close>

theorem Walking_Calories_counterexample:
  "0 < Weight (Walking_Training walkTraining) \<and>
   0 < Height walkTraining \<and>
   Training_meanSpeed (Walking_Training walkTraining) = Some (52 / 15) \<and>
   Hours (Duration (Walking_Training walkTraining)) = 15 / 4 \<and>
   Walking_Calories walkTraining \<noteq>
     Some ((35 / 1000 * 85 + (52 / 15 * 1000 / 3600) ^ 2 / (185 / 100) * (29 / 1000) * 85) *
           (15 / 4) * 60)"
  by (simp add: walkTraining_values power2_eq_square)
    (simp add: walkTraining_def sample_Hours)

text \<open>
  C6 (amended): for every Walking record with weight > 0, height > 0 and mean speed > 0
  the calories are
  \<open>(0.035 * weight + (v\<^sup>2 / heightMeters) * 0.029 * weight) * durationHours * 60\<close> with
  \<open>heightMeters = heightCm / 100\<close>, where \<open>v = meanSpeed * 1000 / 3600\<close> in
  \<^verbatim>\<open>src/unnamed/part_000\<close> and \<open>v = meanSpeed * 0.278\<close> in \<^verbatim>\<open>src/main.go\<close>. The calories
  are zero if weight \<le> 0, height \<le> 0 or mean speed \<le> 0 in \<^verbatim>\<open>src/unnamed/part_000\<close>, and
  if weight \<le> 0, height \<le> 0 or mean speed = 0 in \<^verbatim>\<open>src/main.go\<close>.
\<close>

theorem Walking_Calories_formula:
  "(Training_meanSpeed_v2 (Walking_Training_v2 w) = Some ms \<and>
    0 < Weight_v2 (Walking_Training_v2 w) \<and> 0 < Height_v2 w \<and> 0 < ms \<longrightarrow>
      Walking_Calories_v2 w =
        Some ((35 / 1000 * Weight_v2 (Walking_Training_v2 w) +
               ((ms * 1000 / 3600) ^ 2 / (Height_v2 w / 100)) * (29 / 1000) *
               Weight_v2 (Walking_Training_v2 w)) *
              Hours (Duration_v2 (Walking_Training_v2 w)) * 60)) \<and>
   (Training_meanSpeed_v2 (Walking_Training_v2 w0) = Some ms0 \<and>
    (Weight_v2 (Walking_Training_v2 w0) \<le> 0 \<or> Height_v2 w0 \<le> 0 \<or> ms0 \<le> 0) \<longrightarrow>
      Walking_Calories_v2 w0 = Some 0) \<and>
   (Training_meanSpeed (Walking_Training walk) = Some m \<and>
    0 < Weight (Walking_Training walk) \<and> 0 < Height walk \<and> 0 < m \<longrightarrow>
      Walking_Calories walk =
        Some ((35 / 1000 * Weight (Walking_Training walk) +
               ((m * (278 / 1000)) ^ 2 / (Height walk / 100)) * (29 / 1000) *
               Weight (Walking_Training walk)) *
              Hours (Duration (Walking_Training walk)) * 60)) \<and>
   (Training_meanSpeed (Walking_Training walk0) = Some m0 \<and>
    (Weight (Walking_Training walk0) \<le> 0 \<or> Height walk0 \<le> 0 \<or> m0 = 0) \<longrightarrow>
      Walking_Calories walk0 = Some 0)"
proof (intro conjI impI)
  assume "Training_meanSpeed_v2 (Walking_Training_v2 w) = Some ms \<and>
    0 < Weight_v2 (Walking_Training_v2 w) \<and> 0 < Height_v2 w \<and> 0 < ms"
  then show "Walking_Calories_v2 w =
        Some ((35 / 1000 * Weight_v2 (Walking_Training_v2 w) +
               ((ms * 1000 / 3600) ^ 2 / (Height_v2 w / 100)) * (29 / 1000) *
               Weight_v2 (Walking_Training_v2 w)) *
              Hours (Duration_v2 (Walking_Training_v2 w)) * 60)"
    by (simp add: Walking_Calories_v2_def fdiv_def cmInMeter_def minutesInHour_def
        math_Pow2_def power2_eq_square Let_def)
next
  assume "Training_meanSpeed_v2 (Walking_Training_v2 w0) = Some ms0 \<and>
    (Weight_v2 (Walking_Training_v2 w0) \<le> 0 \<or> Height_v2 w0 \<le> 0 \<or> ms0 \<le> 0)"
  then show "Walking_Calories_v2 w0 = Some 0"
    by (auto simp: Walking_Calories_v2_def)
next
  assume "Training_meanSpeed (Walking_Training walk) = Some m \<and>
    0 < Weight (Walking_Training walk) \<and> 0 < Height walk \<and> 0 < m"
  then show "Walking_Calories walk =
        Some ((35 / 1000 * Weight (Walking_Training walk) +
               ((m * (278 / 1000)) ^ 2 / (Height walk / 100)) * (29 / 1000) *
               Weight (Walking_Training walk)) *
              Hours (Duration (Walking_Training walk)) * 60)"
    by (simp add: Walking_Calories_def fdiv_def CmInM_def MinInHours_def KmHInMsec_def
        CaloriesWeightMultiplier_def CaloriesSpeedHeightMultiplier_def
        math_Pow2_def power2_eq_square Let_def)
next
  assume "Training_meanSpeed (Walking_Training walk0) = Some m0 \<and>
    (Weight (Walking_Training walk0) \<le> 0 \<or> Height walk0 \<le> 0 \<or> m0 = 0)"
  then show "Walking_Calories walk0 = Some 0"
    by (auto simp: Walking_Calories_def)
qed

theorem Walking_Calories_formula_witness:
  "Training_meanSpeed_v2 (Walking_Training_v2 walking) = Some (52 / 15) \<and>
   0 < Weight_v2 (Walking_Training_v2 walking) \<and> 0 < Height_v2 walking \<and>
   (0 :: real) < 52 / 15 \<and>
   Walking_Calories_v2 walking =
     Some ((35 / 1000 * Weight_v2 (Walking_Training_v2 walking) +
            ((52 / 15 * 1000 / 3600) ^ 2 / (Height_v2 walking / 100)) * (29 / 1000) *
            Weight_v2 (Walking_Training_v2 walking)) *
           Hours (Duration_v2 (Walking_Training_v2 walking)) * 60) \<and>
   Training_meanSpeed_v2 (Walking_Training_v2 (walking\<lparr>Height_v2 := 0\<rparr>)) = Some (52 / 15) \<and>
   Height_v2 (walking\<lparr>Height_v2 := 0\<rparr>) \<le> 0 \<and>
   Walking_Calories_v2 (walking\<lparr>Height_v2 := 0\<rparr>) = Some 0 \<and>
   Training_meanSpeed (Walking_Training walkTraining) = Some (52 / 15) \<and>
   0 < Weight (Walking_Training walkTraining) \<and> 0 < Height walkTraining \<and>
   Walking_Calories walkTraining =
     Some ((35 / 1000 * Weight (Walking_Training walkTraining) +
            ((52 / 15 * (278 / 1000)) ^ 2 / (Height walkTraining / 100)) * (29 / 1000) *
            Weight (Walking_Training walkTraining)) *
           Hours (Duration (Walking_Training walkTraining)) * 60) \<and>
   Training_meanSpeed (Walking_Training (walkTraining\<lparr>Height := 0\<rparr>)) = Some (52 / 15) \<and>
   Height (walkTraining\<lparr>Height := 0\<rparr>) \<le> 0 \<and>
   Walking_Calories (walkTraining\<lparr>Height := 0\<rparr>) = Some 0"
proof -
  have a: "Training_meanSpeed_v2 (Walking_Training_v2 walking) = Some (52 / 15)"
    "Training_meanSpeed (Walking_Training walkTraining) = Some (52 / 15)"
    by (simp_all add: walking_values walkTraining_values)
  have b: "0 < Weight_v2 (Walking_Training_v2 walking)" "0 < Height_v2 walking"
    "0 < Weight (Walking_Training walkTraining)" "0 < Height walkTraining"
    by (simp_all add: walking_def walkTraining_def)
  have c: "Training_meanSpeed_v2 (Walking_Training_v2 (walking\<lparr>Height_v2 := 0\<rparr>)) = Some (52 / 15)"
    "Training_meanSpeed (Walking_Training (walkTraining\<lparr>Height := 0\<rparr>)) = Some (52 / 15)"
    using a by simp_all
  have d: "Height_v2 (walking\<lparr>Height_v2 := 0\<rparr>) \<le> 0" "Height (walkTraining\<lparr>Height := 0\<rparr>) \<le> 0"
    by simp_all
  from Walking_Calories_formula [of walking "52 / 15" "walking\<lparr>Height_v2 := 0\<rparr>" "52 / 15"
      walkTraining "52 / 15" "walkTraining\<lparr>Height := 0\<rparr>" "52 / 15"] a b c d
  show ?thesis by simp
qed

text \<open>
  C7: two Swimming records that agree on pool length, pool crossing count and duration
  have the same mean speed, whatever their step lengths and repetition counts are; in
  both versions.
\<close>

theorem Swimming_meanSpeed_ignores_steps:
  "(LengthPool a = LengthPool b \<and> CountPool a = CountPool b \<and>
    Duration (Swimming_Training a) = Duration (Swimming_Training b)
      \<longrightarrow> Swimming_meanSpeed a = Swimming_meanSpeed b) \<and>
   (PoolLength c = PoolLength d \<and> PoolCount c = PoolCount d \<and>
    Duration_v2 (Swimming_Training_v2 c) = Duration_v2 (Swimming_Training_v2 d)
      \<longrightarrow> Swimming_meanSpeed_v2 c = Swimming_meanSpeed_v2 d)"
  by (simp add: Swimming_meanSpeed_def Swimming_meanSpeed_v2_def)

theorem Swimming_meanSpeed_ignores_steps_witness:
  "LengthPool swimTraining =
     LengthPool (swimTraining\<lparr>Swimming_Training :=
       (Swimming_Training swimTraining)\<lparr>Action := 7, LenStep := 3, Weight := 60\<rparr>\<rparr>) \<and>
   CountPool swimTraining =
     CountPool (swimTraining\<lparr>Swimming_Training :=
       (Swimming_Training swimTraining)\<lparr>Action := 7, LenStep := 3, Weight := 60\<rparr>\<rparr>) \<and>
   Duration (Swimming_Training swimTraining) =
     Duration (Swimming_Training (swimTraining\<lparr>Swimming_Training :=
       (Swimming_Training swimTraining)\<lparr>Action := 7, LenStep := 3, Weight := 60\<rparr>\<rparr>)) \<and>
   Swimming_meanSpeed swimTraining =
     Swimming_meanSpeed (swimTraining\<lparr>Swimming_Training :=
       (Swimming_Training swimTraining)\<lparr>Action := 7, LenStep := 3, Weight := 60\<rparr>\<rparr>) \<and>
   Swimming_meanSpeed swimTraining = Some (1 / 6) \<and>
   PoolLength swimming =
     PoolLength (swimming\<lparr>Swimming_Training_v2 :=
       (Swimming_Training_v2 swimming)\<lparr>Action_v2 := 7, StepLength := 3\<rparr>\<rparr>) \<and>
   PoolCount swimming =
     PoolCount (swimming\<lparr>Swimming_Training_v2 :=
       (Swimming_Training_v2 swimming)\<lparr>Action_v2 := 7, StepLength := 3\<rparr>\<rparr>) \<and>
   Duration_v2 (Swimming_Training_v2 swimming) =
     Duration_v2 (Swimming_Training_v2 (swimming\<lparr>Swimming_Training_v2 :=
       (Swimming_Training_v2 swimming)\<lparr>Action_v2 := 7, StepLength := 3\<rparr>\<rparr>)) \<and>
   Swimming_meanSpeed_v2 swimming =
     Swimming_meanSpeed_v2 (swimming\<lparr>Swimming_Training_v2 :=
       (Swimming_Training_v2 swimming)\<lparr>Action_v2 := 7, StepLength := 3\<rparr>\<rparr>) \<and>
   Swimming_meanSpeed_v2 swimming = Some (1 / 6)"
proof -
  let ?b = "swimTraining\<lparr>Swimming_Training :=
       (Swimming_Training swimTraining)\<lparr>Action := 7, LenStep := 3, Weight := 60\<rparr>\<rparr>"
  let ?d = "swimming\<lparr>Swimming_Training_v2 :=
       (Swimming_Training_v2 swimming)\<lparr>Action_v2 := 7, StepLength := 3\<rparr>\<rparr>"
  have h1: "LengthPool swimTraining = LengthPool ?b \<and> CountPool swimTraining = CountPool ?b \<and>
    Duration (Swimming_Training swimTraining) = Duration (Swimming_Training ?b)"
    by simp
  have h2: "PoolLength swimming = PoolLength ?d \<and> PoolCount swimming = PoolCount ?d \<and>
    Duration_v2 (Swimming_Training_v2 swimming) = Duration_v2 (Swimming_Training_v2 ?d)"
    by simp
  have v1: "Swimming_meanSpeed swimTraining = Some (1 / 6)"
    by (simp add: Swimming_meanSpeed_Some swimTraining_def sample_Hours float64_of_int_def
        MInKm_def)
  have v2: "Swimming_meanSpeed_v2 swimming = Some (1 / 6)"
    by (simp add: Swimming_meanSpeed_v2_Some swimming_def sample_Hours float64_of_int_def
        metersInKm_def sample_sint)
  from Swimming_meanSpeed_ignores_steps [of swimTraining ?b swimming ?d] h1 h2 v1 v2
  show ?thesis by blast
qed

text \<open>
  C8: for every workout value the summary is defined, and printing it twice in a row
  appends the same bytes twice to the standard output; in both versions.
\<close>

theorem summary_twice_identical:
  "(\<exists>s. ReadData training = Some s \<and>
        (Println_ReadData training out \<bind> Println_ReadData training) =
          Some (out @ s @ [CHR 0x0A] @ s @ [CHR 0x0A])) \<and>
   (\<exists>s. ReadData_v2 training' = Some s \<and>
        (Println_ReadData_v2 training' out' \<bind> Println_ReadData_v2 training') =
          Some (out' @ s @ [CHR 0x0A] @ s @ [CHR 0x0A]))"
proof -
  obtain s where s: "ReadData training = Some s"
    using ReadData_total by blast
  obtain s' where s': "ReadData_v2 training' = Some s'"
    using ReadData_v2_total by blast
  from s s' show ?thesis
    by (simp add: Println_ReadData_def Println_ReadData_v2_def Println_def)
qed

text \<open>
  C9: in \<^verbatim>\<open>src/unnamed/part_000\<close>, for every Running, Walking and Swimming value,
  \<^verbatim>\<open>ReadData\<close> renders a message whose calories are 0; for a Swimming value its mean
  speed is the one of the base \<^verbatim>\<open>Training.meanSpeed\<close>, computed from the repetition
  count and the step length.
\<close>

theorem ReadData_v2_reports_base_metrics:
  "(\<exists>info. ReadData_msg_v2 (OfRunning_v2 r) = Some info \<and>
           ReadData_v2 (OfRunning_v2 r) = Some (InfoMessage_String_v2 info) \<and>
           MsgCalories_v2 info = 0) \<and>
   (\<exists>info. ReadData_msg_v2 (OfWalking_v2 w) = Some info \<and>
           ReadData_v2 (OfWalking_v2 w) = Some (InfoMessage_String_v2 info) \<and>
           MsgCalories_v2 info = 0) \<and>
   (\<exists>info. ReadData_msg_v2 (OfSwimming_v2 s) = Some info \<and>
           ReadData_v2 (OfSwimming_v2 s) = Some (InfoMessage_String_v2 info) \<and>
           MsgCalories_v2 info = 0 \<and>
           Training_meanSpeed_v2 (Swimming_Training_v2 s) = Some (MsgMeanSpeed_v2 info) \<and>
           MsgMeanSpeed_v2 info =
             (if sint (Duration_v2 (Swimming_Training_v2 s)) \<le> 0 then 0
              else (if StepLength (Swimming_Training_v2 s) \<le> 0 then 0
                    else float64_of_int (Action_v2 (Swimming_Training_v2 s)) *
                         StepLength (Swimming_Training_v2 s) / 1000) /
                   Hours (Duration_v2 (Swimming_Training_v2 s))))"
  by (simp add: ReadData_v2_def ReadData_msg_v2_def Training_TrainingInfo_v2_Some
      Training_meanSpeed_v2_Some Training_distance_v2_def metersInKm_def)

text \<open>
  C10: in \<^verbatim>\<open>src/main.go\<close>, for every value implementing \<^verbatim>\<open>CaloriesCalculator\<close>,
  \<^verbatim>\<open>ReadData\<close> renders the message returned by \<^verbatim>\<open>TrainingInfo\<close> with its type,
  duration, distance and mean speed unchanged and its calories replaced by the result of
  the dynamically dispatched \<^verbatim>\<open>Calories\<close>.
\<close>

theorem ReadData_replaces_only_Calories:
  "\<exists>spentCalories infoMsg.
     Calories training = Some spentCalories \<and>
     TrainingInfo training = Some infoMsg \<and>
     ReadData training =
       Some (InfoMessage_String
         \<lparr>MsgTrainingType = MsgTrainingType infoMsg,
          MsgDuration = MsgDuration infoMsg,
          MsgDistance = MsgDistance infoMsg,
          MsgMeanSpeed = MsgMeanSpeed infoMsg,
          MsgCalories = spentCalories\<rparr>)"
proof -
  obtain c i where ci: "Calories training = Some c" "TrainingInfo training = Some i"
    using Calories_total TrainingInfo_total by blast
  have upd: "i\<lparr>MsgCalories := c\<rparr> =
    \<lparr>MsgTrainingType = MsgTrainingType i, MsgDuration = MsgDuration i,
     MsgDistance = MsgDistance i, MsgMeanSpeed = MsgMeanSpeed i, MsgCalories = c\<rparr>"
    by simp
  have "ReadData training = Some (InfoMessage_String (i\<lparr>MsgCalories := c\<rparr>))"
    using ci by (simp add: ReadData_def ReadData_msg_def)
  with ci show ?thesis unfolding upd by blast
qed

end
